theory Spec2Isabelle
  imports Main
begin

section \<open>nimbix-admin/ssh.py: resolving a job's address by image name\<close>

text \<open>
  The script reads the credentials from \<^verbatim>\<open>nimbix.yaml\<close>, takes an image name from
  the command line, asks the job API for the job listing, searches it for the image,
  asks for the connection data of the job it found and prints the address. It has no
  function of its own: the definitions below cut it at its statements and keep the
  names of its variables.

  Everything outside the script is a field of \<open>world\<close>: the configuration file as
  \<^verbatim>\<open>yaml.load\<close> returns it, \<^verbatim>\<open>argparse\<close>'s scan of the command line,
  \<^verbatim>\<open>requests.get\<close> and \<^verbatim>\<open>json.loads\<close> (after \<^verbatim>\<open>decode('utf-8')\<close>). The
  theorems hold for every world.
\<close>

subsection \<open>Python values\<close>

text \<open>
  What \<^verbatim>\<open>json.loads\<close> returns: \<^verbatim>\<open>None\<close>, a bool, a number, a string, a list or a
  dict. The script never looks into a number, which is kept as its literal. A dict is
  the list of its items in iteration order; a dict has every key once, which no
  property below depends on.
\<close>

datatype json =
    JNull
  | JBool bool
  | JNumber string
  | JString string
  | JArray "json list"
  | JObject "(string \<times> json) list"

text \<open>The exceptions that can end the script. \<open>SystemExit n\<close> is \<^verbatim>\<open>sys.exit(n)\<close>.\<close>

datatype exn =
    OSError
  | YAMLError
  | IndexError
  | KeyError string
  | TypeError
  | AttributeError
  | AssertionError
  | RequestException
  | ValueError
  | SystemExit nat

text \<open>
  \<^verbatim>\<open>x[k]\<close> for a string \<open>k\<close>: a dict raises KeyError on a missing key, every other
  decoded value raises TypeError (a string or a list takes integer indices only, the
  others take none).
\<close>

fun getitem :: "json \<Rightarrow> string \<Rightarrow> exn + json" where
  "getitem (JObject kvs) k =
     (case map_of kvs k of None \<Rightarrow> Inl (KeyError k) | Some v \<Rightarrow> Inr v)"
| "getitem _ k = Inl TypeError"

text \<open>\<^verbatim>\<open>x.items()\<close>: only a dict has the method.\<close>

fun items :: "json \<Rightarrow> exn + (string \<times> json) list" where
  "items (JObject kvs) = Inr kvs"
| "items _ = Inl AttributeError"

subsection \<open>The world and the process\<close>

record response =
  status_code :: int
  content :: string

text \<open>
  What lines 11 and 12 get from \<^verbatim>\<open>nimbix.yaml\<close>: the file cannot be opened, or it is
  no YAML, or it is a mapping, whose values are taken to be strings as the two
  credentials are.
\<close>

datatype yaml_file = Unreadable | Malformed | Loaded "(string \<times> string) list"

text \<open>
  What \<^verbatim>\<open>parser.parse_args()\<close> does with \<^verbatim>\<open>sys.argv[1:]\<close> for a parser whose only
  option is \<^verbatim>\<open>--image\<close>: it returns with the option's value when the option was
  given (\<open>Parsed (Some v)\<close>) or without one (\<open>Parsed None\<close>), or it prints the usage
  message to standard error and exits with 2, or it prints the help text to standard
  output and exits with 0.
\<close>

datatype parse_result = Parsed "string option" | Usage_error | Help

record world =
  nimbix_yaml :: yaml_file
  parse_args :: "string list \<Rightarrow> parse_result"
  requests_get :: "string \<Rightarrow> response option"
  json_loads :: "string \<Rightarrow> json option"

text \<open>
  The effects of a run: the URLs requested, in order, and what was written to standard
  output and to standard error. \<open>Printed v\<close> is the line \<^verbatim>\<open>print(v)\<close> writes,
  \<^verbatim>\<open>str(v)\<close> and a newline; for a string that is the string itself.
\<close>

datatype line = Printed json | Help_text | Usage_text | Traceback exn

record proc =
  sent :: "string list"
  stdout :: "line list"
  stderr :: "line list"

definition start :: proc where
  "start = \<lparr>sent = [], stdout = [], stderr = []\<rparr>"

type_synonym 'a step = "proc \<Rightarrow> (exn + 'a) \<times> proc"

definition ret :: "'a \<Rightarrow> 'a step" where
  "ret x s = (Inr x, s)"

definition raise :: "exn \<Rightarrow> 'a step" where
  "raise e s = (Inl e, s)"

definition lift :: "exn + 'a \<Rightarrow> 'a step" where
  "lift r s = (r, s)"

definition and_then :: "'a step \<Rightarrow> ('a \<Rightarrow> 'b step) \<Rightarrow> 'b step" where
  "and_then m f s = (case m s of (Inl e, s') \<Rightarrow> (Inl e, s') | (Inr x, s') \<Rightarrow> f x s')"

definition print :: "json \<Rightarrow> unit step" where
  "print v s = (Inr (), s\<lparr>stdout := stdout s @ [Printed v]\<rparr>)"

text \<open>\<^verbatim>\<open>requests.get(url)\<close>: the request is made, and a transport failure raises.\<close>

definition get :: "world \<Rightarrow> string \<Rightarrow> response step" where
  "get w url s =
     (case requests_get w url of None \<Rightarrow> Inl RequestException | Some r \<Rightarrow> Inr r,
      s\<lparr>sent := sent s @ [url]\<rparr>)"

text \<open>
  \<^verbatim>\<open>json.loads(res.content.decode('utf-8'))\<close>: both failures (UnicodeDecodeError and
  JSONDecodeError) are ValueErrors.
\<close>

definition loads :: "world \<Rightarrow> string \<Rightarrow> json step" where
  "loads w body = lift (case json_loads w body of None \<Rightarrow> Inl ValueError | Some v \<Rightarrow> Inr v)"

subsection \<open>The script\<close>

definition api_url :: string where
  "api_url = ''https://api.jarvice.com/jarvice''"

text \<open>Lines 11 and 12: the configuration file is opened and loaded first.\<close>

definition config :: "world \<Rightarrow> (string \<times> string) list step" where
  "config w =
     (case nimbix_yaml w of
        Unreadable \<Rightarrow> raise OSError
      | Malformed \<Rightarrow> raise YAMLError
      | Loaded kvs \<Rightarrow> ret kvs)"

text \<open>
  Lines 15 to 21: with more than two entries in \<^verbatim>\<open>sys.argv\<close> the parser reads the
  image, and \<^verbatim>\<open>default='ng0'\<close> is its value when the option is not given; else the
  image is \<^verbatim>\<open>sys.argv[1]\<close>, which raises IndexError when there is no argument.
\<close>

definition image :: "world \<Rightarrow> string list \<Rightarrow> string step" where
  "image w argv =
     (if length argv > 2 then
        (case parse_args w (tl argv) of
           Parsed None \<Rightarrow> ret ''ng0''
         | Parsed (Some v) \<Rightarrow> ret v
         | Usage_error \<Rightarrow>
             (\<lambda>s. (Inl (SystemExit 2), s\<lparr>stderr := stderr s @ [Usage_text]\<rparr>))
         | Help \<Rightarrow>
             (\<lambda>s. (Inl (SystemExit 0), s\<lparr>stdout := stdout s @ [Help_text]\<rparr>)))
      else if length argv > 1 then ret (argv ! 1)
      else raise IndexError)"

text \<open>Lines 23 and 24: \<^verbatim>\<open>config['username']\<close>, \<^verbatim>\<open>config['apikey']\<close>.\<close>

definition config_get :: "(string \<times> string) list \<Rightarrow> string \<Rightarrow> string step" where
  "config_get kvs k = (case map_of kvs k of None \<Rightarrow> raise (KeyError k) | Some v \<Rightarrow> ret v)"

definition jobs_url :: "string \<Rightarrow> string \<Rightarrow> string" where
  "jobs_url username apikey =
     api_url @ ''/jobs?username='' @ username @ ''&apikey='' @ apikey"

definition connect_url :: "string \<Rightarrow> string \<Rightarrow> string \<Rightarrow> string" where
  "connect_url username apikey number =
     api_url @ ''/connect?username='' @ username @ ''&apikey='' @ apikey
       @ ''&number='' @ number"

text \<open>Line 40, left of the comparison: \<^verbatim>\<open>info['job_api_submission']['nae']['name']\<close>.\<close>

definition nae_name :: "json \<Rightarrow> exn + json" where
  "nae_name info =
     (case getitem info ''job_api_submission'' of
        Inl e \<Rightarrow> Inl e
      | Inr sub \<Rightarrow>
          (case getitem sub ''nae'' of
             Inl e \<Rightarrow> Inl e
           | Inr nae \<Rightarrow> getitem nae ''name''))"

text \<open>
  Lines 37 to 42: the loop over \<^verbatim>\<open>res.items()\<close>. The result is \<open>None\<close> when no entry
  matched, as the variable is after the loop. A decoded value equals the image, a
  string, only when it is that string.
\<close>

fun target_jobnumber :: "(string \<times> json) list \<Rightarrow> string \<Rightarrow> exn + string option" where
  "target_jobnumber [] img = Inr None"
| "target_jobnumber ((jobnumber, info) # rest) img =
     (case nae_name info of
        Inl e \<Rightarrow> Inl e
      | Inr name \<Rightarrow>
          if name = JString img then Inr (Some jobnumber)
          else target_jobnumber rest img)"

text \<open>
  Line 44: \<^verbatim>\<open>assert target_jobnumber is not None\<close>, for an interpreter that keeps
  assertions (one started without \<^verbatim>\<open>-O\<close>).
\<close>

definition assert_found :: "string option \<Rightarrow> string step" where
  "assert_found t = (case t of None \<Rightarrow> raise AssertionError | Some n \<Rightarrow> ret n)"

text \<open>Lines 30 to 33: the job listing is requested and decoded.\<close>

definition jobs :: "world \<Rightarrow> string \<Rightarrow> string \<Rightarrow> json step" where
  "jobs w username apikey =
     and_then (get w (jobs_url username apikey)) (\<lambda>res.
     loads w (content res))"

text \<open>Lines 48 to 52: the connection data of the job, and its \<^verbatim>\<open>address\<close>.\<close>

definition ip_address :: "world \<Rightarrow> string \<Rightarrow> string \<Rightarrow> string \<Rightarrow> json step" where
  "ip_address w username apikey number =
     and_then (get w (connect_url username apikey number)) (\<lambda>res.
     and_then (loads w (content res)) (\<lambda>res.
     lift (getitem res ''address'')))"

text \<open>Lines 30 to 54: the lookup for an image that passed the guard.\<close>

definition lookup :: "world \<Rightarrow> string \<Rightarrow> string \<Rightarrow> string \<Rightarrow> unit step" where
  "lookup w username apikey img =
     and_then (jobs w username apikey) (\<lambda>res.
     and_then (lift (items res)) (\<lambda>entries.
     and_then (lift (target_jobnumber entries img)) (\<lambda>t.
     and_then (assert_found t) (\<lambda>number.
     and_then (ip_address w username apikey number) print))))"

text \<open>Lines 27 and 28: the message and \<^verbatim>\<open>sys.exit(1)\<close>.\<close>

definition please :: "unit step" where
  "please =
     and_then (print (JString ''please provide image name'')) (\<lambda>_.
     raise (SystemExit 1))"

text \<open>
  Lines 26 to 54. The guard of line 26 tests the image for the empty string and for
  \<^verbatim>\<open>None\<close>, so the image is a string or \<open>None\<close> here.
\<close>

definition resolve :: "world \<Rightarrow> string \<Rightarrow> string \<Rightarrow> string option \<Rightarrow> unit step" where
  "resolve w username apikey img =
     (case img of
        None \<Rightarrow> please
      | Some i \<Rightarrow> if i = '''' then please else lookup w username apikey i)"

text \<open>The whole script, lines 11 to 54.\<close>

definition main :: "world \<Rightarrow> string list \<Rightarrow> unit step" where
  "main w argv =
     and_then (config w) (\<lambda>cfg.
     and_then (image w argv) (\<lambda>img.
     and_then (config_get cfg ''username'') (\<lambda>username.
     and_then (config_get cfg ''apikey'') (\<lambda>apikey.
     resolve w username apikey (Some img)))))"

text \<open>
  The interpreter around the script: an exception nobody caught is printed to standard
  error as a traceback and the exit code is 1; \<^verbatim>\<open>SystemExit\<close> prints nothing and
  gives its own code; a run that reaches the end exits with 0.
\<close>

fun exit_code :: "exn + unit \<Rightarrow> nat" where
  "exit_code (Inr _) = 0"
| "exit_code (Inl (SystemExit n)) = n"
| "exit_code (Inl _) = 1"

fun traceback :: "exn + unit \<Rightarrow> line list" where
  "traceback (Inr _) = []"
| "traceback (Inl (SystemExit n)) = []"
| "traceback (Inl e) = [Traceback e]"

definition run :: "world \<Rightarrow> string list \<Rightarrow> nat \<times> proc" where
  "run w argv =
     (case main w argv start of
        (r, s) \<Rightarrow> (exit_code r, s\<lparr>stderr := stderr s @ traceback r\<rparr>))"

subsection \<open>The notions the properties are stated with\<close>

text \<open>
  What a GET of the URL delivers once decoded: the job listing for the jobs URL, the
  connection data for a connect URL.
\<close>

definition fetched :: "world \<Rightarrow> string \<Rightarrow> exn + json" where
  "fetched w url =
     (case requests_get w url of
        None \<Rightarrow> Inl RequestException
      | Some r \<Rightarrow> (case json_loads w (content r) of None \<Rightarrow> Inl ValueError | Some v \<Rightarrow> Inr v))"

text \<open>
  An entry of the listing is a job when its value has an image name at
  \<^verbatim>\<open>job_api_submission.nae.name\<close>; it matches the image when that name is the image.
\<close>

definition has_name :: "json \<Rightarrow> bool" where
  "has_name info = (case nae_name info of Inl _ \<Rightarrow> False | Inr _ \<Rightarrow> True)"

definition matches :: "string \<Rightarrow> string \<times> json \<Rightarrow> bool" where
  "matches img e = (nae_name (snd e) = Inr (JString img))"

text \<open>A decoded connect response without the \<^verbatim>\<open>address\<close> field.\<close>

definition lacks_address :: "json \<Rightarrow> bool" where
  "lacks_address v = (case v of JObject kvs \<Rightarrow> ''address'' \<notin> fst ` set kvs | _ \<Rightarrow> True)"

text \<open>The same world with the status code of every response replaced.\<close>

definition with_status :: "(string \<Rightarrow> int \<Rightarrow> int) \<Rightarrow> world \<Rightarrow> world" where
  "with_status f w =
     w\<lparr>requests_get :=
         (\<lambda>url. case requests_get w url of
            None \<Rightarrow> None
          | Some r \<Rightarrow> Some (r\<lparr>status_code := f url (status_code r)\<rparr>))\<rparr>"

subsection \<open>Worlds given by tables\<close>

text \<open>
  A world whose parser, server and decoder are finite tables: a command line that is
  not in the first table is a usage error, a URL that is not in the second cannot be
  reached, a body that is not in the third does not decode.
\<close>

definition world_of ::
  "yaml_file \<Rightarrow> (string list \<times> parse_result) list \<Rightarrow> (string \<times> int \<times> string) list
     \<Rightarrow> (string \<times> json) list \<Rightarrow> world" where
  "world_of yaml cmds pages docs =
     \<lparr>nimbix_yaml = yaml,
      parse_args = (\<lambda>args. case map_of cmds args of None \<Rightarrow> Usage_error | Some r \<Rightarrow> r),
      requests_get =
        (\<lambda>url. case map_of pages url of
           None \<Rightarrow> None
         | Some (code, body) \<Rightarrow> Some \<lparr>status_code = code, content = body\<rparr>),
      json_loads = map_of docs\<rparr>"

text \<open>The job data of an image, and the credentials and bodies of the examples.\<close>

definition job_info :: "string \<Rightarrow> json" where
  "job_info name =
     JObject [(''job_api_submission'', JObject [(''nae'', JObject [(''name'', JString name)])])]"

definition alice :: yaml_file where
  "alice = Loaded [(''username'', ''alice''), (''apikey'', ''s3cret'')]"

definition jobs_body :: string where
  \<open>jobs_body = ''{"42": {"job_api_submission":{"nae":{"name":"ng0"}}}}''\<close>

definition connect_body :: string where
  \<open>connect_body = ''{"address":"10.0.0.5"}''\<close>

definition spaced_body :: string where
  \<open>spaced_body = ''{ "address" : "10.0.0.5" }''\<close>

definition queued_body :: string where
  \<open>queued_body = ''{"status":"queued"}''\<close>

definition denied_body :: string where
  \<open>denied_body = ''{"error":"invalid credentials"}''\<close>

definition docs :: "(string \<times> json) list" where
  "docs =
     [(jobs_body, JObject [(''42'', job_info ''ng0'')]),
      (connect_body, JObject [(''address'', JString ''10.0.0.5'')]),
      (spaced_body, JObject [(''address'', JString ''10.0.0.5'')]),
      (queued_body, JObject [(''status'', JString ''queued'')]),
      (denied_body, JObject [(''error'', JString ''invalid credentials'')]),
      (''[]'', JArray [])]"

text \<open>
  The world of the end-to-end scenario: job 42 runs the image ng0 and its address is
  10.0.0.5.
\<close>

definition demo_world :: world where
  "demo_world =
     world_of alice [([''--image'', ''ng1''], Parsed (Some ''ng1''))]
       [(jobs_url ''alice'' ''s3cret'', 200, jobs_body),
        (connect_url ''alice'' ''s3cret'' ''42'', 200, connect_body)]
       docs"

text \<open>The same listing and connection data in other bytes and under other status codes.\<close>

definition other_world :: world where
  "other_world =
     world_of Unreadable []
       [(jobs_url ''alice'' ''s3cret'', 203, jobs_body),
        (connect_url ''alice'' ''s3cret'' ''42'', 201, spaced_body)]
       docs"

text \<open>A world whose connect response is a JSON object without an address.\<close>

definition queued_world :: world where
  "queued_world =
     world_of alice []
       [(jobs_url ''alice'' ''s3cret'', 200, jobs_body),
        (connect_url ''alice'' ''s3cret'' ''42'', 200, queued_body)]
       docs"

text \<open>A world whose connect response is a JSON list.\<close>

definition list_world :: world where
  "list_world =
     world_of alice []
       [(jobs_url ''alice'' ''s3cret'', 200, jobs_body),
        (connect_url ''alice'' ''s3cret'' ''42'', 200, ''[]'')]
       docs"

text \<open>A world whose server answers the jobs request with 401 and a JSON error body.\<close>

definition denied_world :: world where
  "denied_world =
     world_of alice []
       [(jobs_url ''alice'' ''s3cret'', 401, denied_body)]
       docs"

text \<open>The jobs request answered with 500 and the listing of the scenario.\<close>

definition error_status_world :: world where
  "error_status_world =
     world_of alice []
       [(jobs_url ''alice'' ''s3cret'', 500, jobs_body),
        (connect_url ''alice'' ''s3cret'' ''42'', 200, connect_body)]
       docs"

text \<open>The jobs request answered with 500 and a JSON list.\<close>

definition array_world :: world where
  "array_world =
     world_of alice []
       [(jobs_url ''alice'' ''s3cret'', 500, ''[]'')]
       docs"

text \<open>
  One mapping from job numbers to jobs, written in two orders: the jobs 42 and 43 run
  the image ng0, the job 44 runs ng1. Each job has an address of its own.
\<close>

definition twin_body :: string where
  \<open>twin_body = ''{"42":{"job_api_submission":{"nae":{"name":"ng0"}}},"43":{"job_api_submission":{"nae":{"name":"ng0"}}},"44":{"job_api_submission":{"nae":{"name":"ng1"}}}}''\<close>

definition reversed_body :: string where
  \<open>reversed_body = ''{"44":{"job_api_submission":{"nae":{"name":"ng1"}}},"43":{"job_api_submission":{"nae":{"name":"ng0"}}},"42":{"job_api_submission":{"nae":{"name":"ng0"}}}}''\<close>

definition second_body :: string where
  \<open>second_body = ''{"address":"10.0.0.6"}''\<close>

definition third_body :: string where
  \<open>third_body = ''{"address":"10.0.0.7"}''\<close>

definition twin_listing :: "(string \<times> json) list" where
  "twin_listing =
     [(''42'', job_info ''ng0''), (''43'', job_info ''ng0''), (''44'', job_info ''ng1'')]"

definition reversed_listing :: "(string \<times> json) list" where
  "reversed_listing =
     [(''44'', job_info ''ng1''), (''43'', job_info ''ng0''), (''42'', job_info ''ng0'')]"

definition twin_docs :: "(string \<times> json) list" where
  "twin_docs =
     [(twin_body, JObject twin_listing),
      (reversed_body, JObject reversed_listing),
      (connect_body, JObject [(''address'', JString ''10.0.0.5'')]),
      (second_body, JObject [(''address'', JString ''10.0.0.6'')]),
      (third_body, JObject [(''address'', JString ''10.0.0.7'')])]"

definition addresses :: "(string \<times> int \<times> string) list" where
  "addresses =
     [(connect_url ''alice'' ''s3cret'' ''42'', 200, connect_body),
      (connect_url ''alice'' ''s3cret'' ''43'', 200, second_body),
      (connect_url ''alice'' ''s3cret'' ''44'', 200, third_body)]"

definition twin_world :: world where
  "twin_world =
     world_of alice [] ((jobs_url ''alice'' ''s3cret'', 200, twin_body) # addresses) twin_docs"

definition reversed_world :: world where
  "reversed_world =
     world_of alice [] ((jobs_url ''alice'' ''s3cret'', 200, reversed_body) # addresses)
       twin_docs"

section \<open>Properties\<close>

subsection \<open>The steps\<close>

lemmas step_defs = ret_def raise_def lift_def and_then_def print_def get_def loads_def

lemma jobs_fetched:
  "jobs w username apikey s =
     (fetched w (jobs_url username apikey), s\<lparr>sent := sent s @ [jobs_url username apikey]\<rparr>)"
  by (simp add: jobs_def fetched_def step_defs split: option.splits)

lemma ip_address_fetched:
  "ip_address w username apikey number s =
     (case fetched w (connect_url username apikey number) of
        Inl e \<Rightarrow> Inl e
      | Inr v \<Rightarrow> getitem v ''address'',
      s\<lparr>sent := sent s @ [connect_url username apikey number]\<rparr>)"
  by (simp add: ip_address_def fetched_def step_defs split: option.splits)

lemma urls_differ: "jobs_url u k \<noteq> connect_url u' k' n"
  by (simp add: jobs_url_def connect_url_def)

lemma connect_url_number: "connect_url u k n = connect_url u k n' \<longleftrightarrow> n = n'"
  by (simp add: connect_url_def)

lemma resolve_no_image:
  assumes "img = None \<or> img = Some ''''"
  shows "resolve w username apikey img s
        = (Inl (SystemExit 1),
           s\<lparr>stdout := stdout s @ [Printed (JString ''please provide image name'')]\<rparr>)"
  using assms by (auto simp: resolve_def please_def and_then_def print_def raise_def)

lemma image_one_argument: "image w [prog, a] s = (Inr a, s)"
  by (simp add: image_def ret_def)

lemma image_cases:
  assumes "image w argv s = (r, s')"
  shows "(\<exists>i. r = Inr i \<and> s' = s)
       \<or> (r = Inl IndexError \<and> s' = s)
       \<or> (r = Inl (SystemExit 2) \<and> s' = s\<lparr>stderr := stderr s @ [Usage_text]\<rparr>)
       \<or> (r = Inl (SystemExit 0) \<and> s' = s\<lparr>stdout := stdout s @ [Help_text]\<rparr>)"
  using assms
  by (auto simp: image_def ret_def raise_def
      split: if_splits parse_result.splits option.splits)

text \<open>
  The parser sees two arguments or more. If it returns without the option only for the
  empty command line, the default is never the image.
\<close>

lemma default_unused:
  assumes "\<forall>args. parse_args w args = Parsed None \<longrightarrow> args = []"
    and "2 < length argv"
    and "image w argv s = (Inr i, s')"
  shows "parse_args w (tl argv) = Parsed (Some i)"
proof -
  from assms(2) have "tl argv \<noteq> []"
    by (cases argv) auto
  with assms(1) have "parse_args w (tl argv) \<noteq> Parsed None"
    by blast
  with assms(2,3) show ?thesis
    by (auto simp: image_def ret_def split: parse_result.splits option.splits)
qed

lemma image_ok_state:
  assumes "image w argv s = (Inr i, s')"
  shows "s' = s"
  using image_cases [OF assms] by auto

lemma main_loaded:
  assumes "nimbix_yaml w = Loaded cfg"
    and "map_of cfg ''username'' = Some username"
    and "map_of cfg ''apikey'' = Some apikey"
    and "image w argv s = (Inr i, s)"
  shows "main w argv s = resolve w username apikey (Some i) s"
  using assms
  by (simp add: main_def config_def config_get_def and_then_def ret_def)

subsection \<open>The search\<close>

lemma target_first_match:
  assumes "\<forall>e\<in>set pre. has_name (snd e) \<and> \<not> matches img e"
    and "matches img (jobnumber, info)"
  shows "target_jobnumber (pre @ (jobnumber, info) # post) img = Inr (Some jobnumber)"
  using assms
  by (induction pre) (auto simp: has_name_def matches_def split: sum.splits)

lemma target_no_match:
  assumes "\<forall>e\<in>set entries. has_name (snd e) \<and> \<not> matches img e"
  shows "target_jobnumber entries img = Inr None"
  using assms
  by (induction entries) (auto simp: has_name_def matches_def split: sum.splits)

lemma nae_name_job_info: "nae_name (job_info name) = Inr (JString name)"
  by (simp add: nae_name_def job_info_def)

lemma has_name_job_info: "has_name (job_info name)"
  by (simp add: has_name_def nae_name_job_info)

lemma matches_job_info: "matches img (k, job_info name) \<longleftrightarrow> name = img"
  by (simp add: matches_def nae_name_job_info)

subsection \<open>Failures\<close>

lemma getitem_lacks:
  assumes "lacks_address v"
  shows "getitem v ''address''
       = Inl (case v of JObject _ \<Rightarrow> KeyError ''address'' | _ \<Rightarrow> TypeError)"
  using assms
  by (cases v) (auto simp: lacks_address_def map_of_eq_None_iff split: option.splits)

lemma getitem_no_exit: "getitem v k \<noteq> Inl (SystemExit n)"
  by (cases v) (simp_all split: option.splits)

lemma nae_name_no_exit: "nae_name info \<noteq> Inl (SystemExit n)"
  by (auto simp: nae_name_def getitem_no_exit split: sum.splits)

lemma items_no_exit: "items v \<noteq> Inl (SystemExit n)"
  by (cases v) simp_all

lemma target_jobnumber_no_exit: "target_jobnumber entries img \<noteq> Inl (SystemExit n)"
  by (induction entries) (auto simp: nae_name_no_exit split: sum.splits if_splits)

lemma fetched_no_exit: "fetched w url \<noteq> Inl (SystemExit n)"
  by (simp add: fetched_def split: option.splits)

lemma lookup_fails:
  assumes "lookup w username apikey img s = (Inl e, s')"
  shows "(\<forall>n. e \<noteq> SystemExit n) \<and> stdout s' = stdout s \<and> stderr s' = stderr s"
  using assms
  by (auto simp: lookup_def and_then_def jobs_fetched ip_address_fetched lift_def
      assert_found_def raise_def ret_def print_def getitem_no_exit items_no_exit
      target_jobnumber_no_exit fetched_no_exit
      split: sum.splits option.splits prod.splits)

lemma resolve_fails:
  assumes "resolve w username apikey img s = (Inl e, s')"
  shows "(e = SystemExit 1
            \<and> stdout s' = stdout s @ [Printed (JString ''please provide image name'')]
            \<and> stderr s' = stderr s)
       \<or> ((\<forall>n. e \<noteq> SystemExit n) \<and> stdout s' = stdout s \<and> stderr s' = stderr s)"
proof (cases "img = None \<or> img = Some ''''")
  case True
  with assms show ?thesis
    by (auto simp: resolve_no_image)
next
  case False
  then obtain i where "img = Some i" "i \<noteq> ''''"
    by auto
  with assms have "lookup w username apikey i s = (Inl e, s')"
    by (simp add: resolve_def)
  then show ?thesis
    using lookup_fails by blast
qed

lemma main_fails:
  assumes "main w argv start = (Inl e, s)" and "e \<noteq> SystemExit 0"
  shows "(e = SystemExit 1
            \<and> stdout s = [Printed (JString ''please provide image name'')] \<and> stderr s = [])
       \<or> (e = SystemExit 2 \<and> stdout s = [] \<and> stderr s = [Usage_text])
       \<or> ((\<forall>n. e \<noteq> SystemExit n) \<and> stdout s = [] \<and> stderr s = [])"
proof (cases "nimbix_yaml w")
  case Unreadable
  with assms show ?thesis
    by (auto simp: main_def config_def and_then_def raise_def start_def)
next
  case Malformed
  with assms show ?thesis
    by (auto simp: main_def config_def and_then_def raise_def start_def)
next
  case (Loaded cfg)
  obtain r s1 where img: "image w argv start = (r, s1)"
    by (cases "image w argv start")
  show ?thesis
  proof (cases r)
    case (Inl x)
    with assms Loaded img have "x = e" "s1 = s"
      by (simp_all add: main_def config_def and_then_def ret_def)
    with image_cases [OF img] Inl assms(2) show ?thesis
      by (auto simp: start_def)
  next
    case (Inr i)
    with image_cases [OF img] have s1: "s1 = start"
      by auto
    show ?thesis
    proof (cases "map_of cfg ''username''")
      case None
      with assms Loaded img Inr s1 show ?thesis
        by (auto simp: main_def config_def config_get_def and_then_def ret_def raise_def
            start_def)
    next
      case (Some username)
      note user = this
      show ?thesis
      proof (cases "map_of cfg ''apikey''")
        case None
        with assms Loaded img Inr s1 user show ?thesis
          by (auto simp: main_def config_def config_get_def and_then_def ret_def raise_def
              start_def)
      next
        case (Some apikey)
        with assms(1) Loaded img Inr s1 user
        have "resolve w username apikey (Some i) start = (Inl e, s)"
          by (simp add: main_def config_def config_get_def and_then_def ret_def)
        from resolve_fails [OF this] show ?thesis
          by (auto simp: start_def)
      qed
    qed
  qed
qed

subsection \<open>Status codes\<close>

lemma fetched_with_status: "fetched (with_status f w) url = fetched w url"
  by (simp add: fetched_def with_status_def split: option.splits)

lemma jobs_with_status: "jobs (with_status f w) username apikey = jobs w username apikey"
  by (rule ext) (simp add: jobs_fetched fetched_with_status)

lemma ip_address_with_status:
  "ip_address (with_status f w) username apikey number = ip_address w username apikey number"
  by (rule ext) (simp add: ip_address_fetched fetched_with_status)

lemma lookup_with_status:
  "lookup (with_status f w) username apikey img = lookup w username apikey img"
  by (simp add: lookup_def jobs_with_status ip_address_with_status)

lemma resolve_with_status:
  "resolve (with_status f w) username apikey img = resolve w username apikey img"
  by (simp add: resolve_def lookup_with_status split: option.splits)

lemma main_with_status: "main (with_status f w) argv = main w argv"
proof -
  have "config (with_status f w) = config w"
    by (simp add: config_def with_status_def)
  moreover have "image (with_status f w) argv = image w argv"
    by (simp add: image_def with_status_def)
  ultimately show ?thesis
    by (simp add: main_def resolve_with_status)
qed

subsection \<open>The example worlds\<close>

lemma world_of_fields:
  "nimbix_yaml (world_of yaml cmds pages ds) = yaml"
  "parse_args (world_of yaml cmds pages ds) args
     = (case map_of cmds args of None \<Rightarrow> Usage_error | Some r \<Rightarrow> r)"
  "requests_get (world_of yaml cmds pages ds) url
     = (case map_of pages url of
          None \<Rightarrow> None
        | Some (code, body) \<Rightarrow> Some \<lparr>status_code = code, content = body\<rparr>)"
  "json_loads (world_of yaml cmds pages ds) = map_of ds"
  by (simp_all add: world_of_def)

lemma docs_decoded:
  "map_of docs jobs_body = Some (JObject [(''42'', job_info ''ng0'')])"
  "map_of docs connect_body = Some (JObject [(''address'', JString ''10.0.0.5'')])"
  "map_of docs spaced_body = Some (JObject [(''address'', JString ''10.0.0.5'')])"
  "map_of docs queued_body = Some (JObject [(''status'', JString ''queued'')])"
  "map_of docs denied_body = Some (JObject [(''error'', JString ''invalid credentials'')])"
  "map_of docs ''[]'' = Some (JArray [])"
  by (simp_all add: docs_def jobs_body_def connect_body_def spaced_body_def queued_body_def
      denied_body_def)

lemma alice_credentials:
  "alice = Loaded [(''username'', ''alice''), (''apikey'', ''s3cret'')]"
  "map_of [(''username'', ''alice''), (''apikey'', ''s3cret'')] ''username'' = Some ''alice''"
  "map_of [(''username'', ''alice''), (''apikey'', ''s3cret'')] ''apikey'' = Some ''s3cret''"
  by (simp_all add: alice_def)

lemma fetched_jobs_page:
  "fetched (world_of yaml cmds ((jobs_url u k, code, body) # pages) ds) (jobs_url u k)
     = (case map_of ds body of None \<Rightarrow> Inl ValueError | Some v \<Rightarrow> Inr v)"
  by (simp add: fetched_def world_of_fields)

lemma fetched_connect_page:
  "fetched (world_of yaml cmds [(jobs_url u k, code, body), (connect_url u k n, code', body')] ds)
       (connect_url u k n')
     = (if n' = n then (case map_of ds body' of None \<Rightarrow> Inl ValueError | Some v \<Rightarrow> Inr v)
        else Inl RequestException)"
  using urls_differ [of u k u k n']
  by (auto simp: fetched_def world_of_fields connect_url_number)

lemma run_loaded:
  assumes "nimbix_yaml w = Loaded cfg"
    and "map_of cfg ''username'' = Some username"
    and "map_of cfg ''apikey'' = Some apikey"
    and "image w argv start = (Inr i, start)"
  shows "run w argv
       = (case resolve w username apikey (Some i) start of
            (r, s) \<Rightarrow> (exit_code r, s\<lparr>stderr := stderr s @ traceback r\<rparr>))"
  using main_loaded [OF assms] by (simp add: run_def)

lemma lookup_found:
  assumes "fetched w (jobs_url username apikey) = Inr (JObject entries)"
    and "target_jobnumber entries img = Inr (Some number)"
  shows "lookup w username apikey img s
       = and_then (ip_address w username apikey number) print
           (s\<lparr>sent := sent s @ [jobs_url username apikey]\<rparr>)"
  using assms
  by (simp add: lookup_def jobs_fetched assert_found_def and_then_def lift_def ret_def)

lemma lookup_search_fails:
  assumes "fetched w (jobs_url username apikey) = Inr (JObject entries)"
    and "target_jobnumber entries img = Inl e"
  shows "lookup w username apikey img s
       = (Inl e, s\<lparr>sent := sent s @ [jobs_url username apikey]\<rparr>)"
  using assms
  by (simp add: lookup_def jobs_fetched and_then_def lift_def)

lemma sent_ip_address_print:
  "sent (snd (and_then (ip_address w username apikey number) print s))
     = sent s @ [connect_url username apikey number]"
  by (simp add: and_then_def ip_address_fetched print_def split: sum.splits)

lemma resolve_image:
  assumes "img \<noteq> ''''"
  shows "resolve w username apikey (Some img) = lookup w username apikey img"
  using assms by (simp add: resolve_def)

lemma nae_name_no_object:
  assumes "\<forall>kvs. v \<noteq> JObject kvs"
  shows "nae_name v = Inl TypeError"
  using assms by (cases v) (simp_all add: nae_name_def)

lemma target_by_filter:
  assumes "\<forall>e\<in>set entries. has_name (snd e)"
  shows "target_jobnumber entries img
       = (case filter (matches img) entries of
            [] \<Rightarrow> Inr None
          | e # _ \<Rightarrow> Inr (Some (fst e)))"
  using assms
  by (induction entries) (auto simp: has_name_def matches_def split: sum.splits)

lemma filter_same_set:
  assumes "set xs = set ys" and "distinct xs" and "distinct ys"
    and "length (filter P xs) \<le> 1"
  shows "filter P ys = filter P xs"
proof -
  have s: "set (filter P ys) = set (filter P xs)"
    using assms(1) by auto
  have d: "distinct (filter P ys)" "distinct (filter P xs)"
    using assms(2,3) by simp_all
  have "length (filter P ys) = length (filter P xs)"
    using s d by (metis distinct_card)
  with assms(4) s show ?thesis
    by (cases "filter P xs"; cases "filter P ys") auto
qed

lemma same_mapping_same_target:
  assumes "distinct (map fst l1)" and "distinct (map fst l2)"
    and "map_of l1 = map_of l2"
    and "\<forall>e\<in>set l1. has_name (snd e)"
    and "length (filter (matches img) l1) \<le> 1"
  shows "target_jobnumber l2 img = target_jobnumber l1 img"
proof -
  have s: "set l1 = set l2"
    using assms(1-3) by (simp add: map_of_inject_set)
  have "distinct l1" "distinct l2"
    using assms(1,2) by (simp_all add: distinct_map)
  with s assms(5) have "filter (matches img) l2 = filter (matches img) l1"
    by (intro filter_same_set) simp_all
  moreover have "\<forall>e\<in>set l2. has_name (snd e)"
    using s assms(4) by simp
  ultimately show ?thesis
    using assms(4) by (simp add: target_by_filter)
qed

lemma run_same_image:
  assumes "image w argv start = (Inr i, start)"
  shows "run w argv = run w [prog, i]"
proof -
  have one: "image w [prog, i] start = (Inr i, start)"
    by (rule image_one_argument)
  have "main w argv start = main w [prog, i] start"
    using assms one
    by (cases "nimbix_yaml w") (simp_all add: main_def config_def and_then_def raise_def ret_def)
  then show ?thesis
    by (simp add: run_def)
qed

lemma get_other_parser: "get (w\<lparr>parse_args := p\<rparr>) url = get w url"
  by (rule ext) (simp add: get_def)

lemma lookup_other_parser:
  "lookup (w\<lparr>parse_args := p\<rparr>) username apikey img = lookup w username apikey img"
  by (simp add: lookup_def jobs_def ip_address_def get_other_parser loads_def)

lemma resolve_other_parser:
  "resolve (w\<lparr>parse_args := p\<rparr>) username apikey img = resolve w username apikey img"
  by (simp add: resolve_def lookup_other_parser split: option.splits)

lemma image_without_parser:
  assumes "length argv \<le> 2"
  shows "image (w\<lparr>parse_args := p\<rparr>) argv = image w argv"
  using assms by (simp add: image_def)

lemma alice_world:
  "nimbix_yaml (world_of alice cmds pages ds)
     = Loaded [(''username'', ''alice''), (''apikey'', ''s3cret'')]"
  by (simp add: world_of_fields alice_def)

lemma jobs_page:
  "requests_get (world_of yaml cmds ((jobs_url u k, code, body) # pages) ds) (jobs_url u k)
     = Some \<lparr>status_code = code, content = body\<rparr>"
  by (simp add: world_of_fields)

lemma fetched_past_jobs_page:
  "fetched (world_of yaml cmds ((jobs_url u k, code, body) # pages) ds) (connect_url u' k' n)
     = fetched (world_of yaml cmds pages ds) (connect_url u' k' n)"
  using urls_differ [of u k u' k' n]
  by (simp add: fetched_def world_of_fields split: option.splits)

lemma twin_fetched:
  "fetched twin_world (jobs_url ''alice'' ''s3cret'') = Inr (JObject twin_listing)"
  "fetched reversed_world (jobs_url ''alice'' ''s3cret'') = Inr (JObject reversed_listing)"
  by (simp_all add: twin_world_def reversed_world_def fetched_jobs_page twin_docs_def
      twin_body_def reversed_body_def)

lemma twin_distinct:
  "distinct (map fst twin_listing)" "distinct (map fst reversed_listing)"
  by (simp_all add: twin_listing_def reversed_listing_def)

lemma twin_mapping: "map_of twin_listing = map_of reversed_listing"
  by (rule ext) (simp add: twin_listing_def reversed_listing_def)

lemma twin_jobs: "\<forall>e\<in>set twin_listing. has_name (snd e)"
  by (simp add: twin_listing_def has_name_job_info)

lemma twin_addresses:
  "\<forall>number. fetched twin_world (connect_url ''alice'' ''s3cret'' number)
     = fetched reversed_world (connect_url ''alice'' ''s3cret'' number)"
  by (simp add: twin_world_def reversed_world_def fetched_past_jobs_page)

lemmas twin_defs =
  twin_world_def reversed_world_def addresses_def twin_docs_def twin_listing_def
  reversed_listing_def twin_body_def reversed_body_def second_body_def third_body_def
  connect_body_def world_of_def alice_def job_info_def jobs_url_def connect_url_def
  api_url_def

lemmas script_defs =
  run_def main_def config_def image_def config_get_def resolve_def please_def lookup_def
  jobs_def ip_address_def assert_found_def nae_name_def start_def step_defs

lemmas example_defs =
  demo_world_def other_world_def queued_world_def list_world_def denied_world_def
  world_of_def alice_def docs_def job_info_def jobs_body_def connect_body_def
  spaced_body_def queued_body_def denied_body_def jobs_url_def connect_url_def api_url_def

section \<open>The claims\<close>

text \<open>
  C1. End to end: when the jobs request returns the listing
  \<^verbatim>\<open>{"42": {"job_api_submission":{"nae":{"name":"ng0"}}}}\<close> and the connect request for
  job 42 returns \<^verbatim>\<open>{"address":"10.0.0.5"}\<close>, the script run with the image name
  \<^verbatim>\<open>ng0\<close> requests the two URLs, prints exactly \<^verbatim>\<open>10.0.0.5\<close> and exits with 0.
\<close>

theorem C1_end_to_end:
  assumes "nimbix_yaml w = Loaded cfg"
    and "map_of cfg ''username'' = Some username"
    and "map_of cfg ''apikey'' = Some apikey"
    and "requests_get w (jobs_url username apikey) = Some r1"
    and "json_loads w (content r1)
          = Some (JObject [(''42'', JObject [(''job_api_submission'',
                    JObject [(''nae'', JObject [(''name'', JString ''ng0'')])])])])"
    and "requests_get w (connect_url username apikey ''42'') = Some r2"
    and "json_loads w (content r2) = Some (JObject [(''address'', JString ''10.0.0.5'')])"
  shows "run w [prog, ''ng0'']
       = (0, \<lparr>sent = [jobs_url username apikey, connect_url username apikey ''42''],
              stdout = [Printed (JString ''10.0.0.5'')], stderr = []\<rparr>)"
proof -
  have listing: "fetched w (jobs_url username apikey)
      = Inr (JObject [(''42'', JObject [(''job_api_submission'',
                    JObject [(''nae'', JObject [(''name'', JString ''ng0'')])])])])"
    using assms(4,5) by (simp add: fetched_def)
  have connection: "fetched w (connect_url username apikey ''42'')
      = Inr (JObject [(''address'', JString ''10.0.0.5'')])"
    using assms(6,7) by (simp add: fetched_def)
  have "main w [prog, ''ng0''] start = resolve w username apikey (Some ''ng0'') start"
    using assms(1-3) by (simp add: main_loaded image_one_argument)
  also have "\<dots> = (Inr (), \<lparr>sent = [jobs_url username apikey, connect_url username apikey ''42''],
              stdout = [Printed (JString ''10.0.0.5'')], stderr = []\<rparr>)"
    using listing connection
    by (simp add: resolve_def lookup_def jobs_fetched ip_address_fetched assert_found_def
        nae_name_def start_def and_then_def lift_def ret_def print_def)
  finally show ?thesis
    by (simp add: run_def)
qed

text \<open>The scenario in the world \<open>demo_world\<close>, whose bodies are the two JSON texts.\<close>

theorem C1_end_to_end_witness:
  "run demo_world [''ssh.py'', ''ng0'']
     = (0, \<lparr>sent = [jobs_url ''alice'' ''s3cret'', connect_url ''alice'' ''s3cret'' ''42''],
            stdout = [Printed (JString ''10.0.0.5'')], stderr = []\<rparr>)"
proof -
  have cfg: "nimbix_yaml demo_world = Loaded [(''username'', ''alice''), (''apikey'', ''s3cret'')]"
    by (simp add: demo_world_def world_of_fields alice_def)
  have r1: "requests_get demo_world (jobs_url ''alice'' ''s3cret'')
      = Some \<lparr>status_code = 200, content = jobs_body\<rparr>"
    by (simp add: demo_world_def world_of_fields)
  have j1: "json_loads demo_world (content \<lparr>status_code = 200, content = jobs_body\<rparr>)
      = Some (JObject [(''42'', JObject [(''job_api_submission'',
                    JObject [(''nae'', JObject [(''name'', JString ''ng0'')])])])])"
    using docs_decoded(1) by (simp add: demo_world_def world_of_fields job_info_def)
  have r2: "requests_get demo_world (connect_url ''alice'' ''s3cret'' ''42'')
      = Some \<lparr>status_code = 200, content = connect_body\<rparr>"
    using urls_differ [of "''alice''" "''s3cret''" "''alice''" "''s3cret''" "''42''"]
    by (simp add: demo_world_def world_of_fields)
  have j2: "json_loads demo_world (content \<lparr>status_code = 200, content = connect_body\<rparr>)
      = Some (JObject [(''address'', JString ''10.0.0.5'')])"
    using docs_decoded(2) by (simp add: demo_world_def world_of_fields)
  show ?thesis
    by (rule C1_end_to_end [OF cfg alice_credentials(2) alice_credentials(3) r1 j1 r2 j2])
qed

text \<open>
  C2. When every entry of the listing is a job and exactly one of them has the image
  name (the same string, case included), the search returns the job number of that
  entry.
\<close>

theorem C2_unique_match:
  assumes "\<forall>e\<in>set entries. has_name (snd e)"
    and "filter (matches img) entries = [(jobnumber, info)]"
  shows "target_jobnumber entries img = Inr (Some jobnumber)"
proof -
  from assms(2) obtain pre post where
    split: "entries = pre @ (jobnumber, info) # post"
    and pre: "\<forall>e\<in>set pre. \<not> matches img e"
    and hit: "matches img (jobnumber, info)"
    by (auto simp: filter_eq_Cons_iff)
  from assms(1) split pre have "\<forall>e\<in>set pre. has_name (snd e) \<and> \<not> matches img e"
    by simp
  from this hit show ?thesis
    unfolding split by (rule target_first_match)
qed

text \<open>Three jobs; the first differs from the image in case only.\<close>

theorem C2_unique_match_witness:
  "filter (matches ''ng0'')
       [(''7'', job_info ''NG0''), (''42'', job_info ''ng0''), (''43'', job_info ''ng1'')]
     = [(''42'', job_info ''ng0'')]
   \<and> target_jobnumber
       [(''7'', job_info ''NG0''), (''42'', job_info ''ng0''), (''43'', job_info ''ng1'')] ''ng0''
     = Inr (Some ''42'')"
proof -
  have jobs: "\<forall>e\<in>set [(''7'', job_info ''NG0''), (''42'', job_info ''ng0''),
      (''43'', job_info ''ng1'')]. has_name (snd e)"
    by (simp add: has_name_job_info)
  have one: "filter (matches ''ng0'')
       [(''7'', job_info ''NG0''), (''42'', job_info ''ng0''), (''43'', job_info ''ng1'')]
     = [(''42'', job_info ''ng0'')]"
    by (simp add: matches_job_info)
  from C2_unique_match [OF jobs one] one show ?thesis
    by simp
qed

text \<open>
  C3. When the jobs request returns a listing all of whose entries are jobs and none of
  which has the image name, the search finds nothing, the assertion of line 44 ends the
  script with AssertionError (the source's form of NotFoundError), and the only request
  made is the jobs request: no connect URL is requested.
\<close>

theorem C3_no_match:
  assumes "img \<noteq> ''''"
    and "requests_get w (jobs_url username apikey) = Some r"
    and "json_loads w (content r) = Some (JObject entries)"
    and "\<forall>e\<in>set entries. has_name (snd e) \<and> \<not> matches img e"
  shows "target_jobnumber entries img = Inr None
       \<and> resolve w username apikey (Some img) start
           = (Inl AssertionError,
              \<lparr>sent = [jobs_url username apikey], stdout = [], stderr = []\<rparr>)
       \<and> connect_url username apikey number
           \<notin> set (sent (snd (resolve w username apikey (Some img) start)))"
proof -
  have none: "target_jobnumber entries img = Inr None"
    using assms(4) by (rule target_no_match)
  have listing: "fetched w (jobs_url username apikey) = Inr (JObject entries)"
    using assms(2,3) by (simp add: fetched_def)
  have res: "resolve w username apikey (Some img) start
           = (Inl AssertionError,
              \<lparr>sent = [jobs_url username apikey], stdout = [], stderr = []\<rparr>)"
    using assms(1) none listing
    by (simp add: resolve_def lookup_def jobs_fetched assert_found_def start_def
        and_then_def lift_def raise_def)
  show ?thesis
    using none res urls_differ [of username apikey username apikey number] by auto
qed

text \<open>The image ng1 in \<open>demo_world\<close>, whose only job runs ng0.\<close>

theorem C3_no_match_witness:
  "target_jobnumber [(''42'', job_info ''ng0'')] ''ng1'' = Inr None
   \<and> resolve demo_world ''alice'' ''s3cret'' (Some ''ng1'') start
       = (Inl AssertionError,
          \<lparr>sent = [jobs_url ''alice'' ''s3cret''], stdout = [], stderr = []\<rparr>)
   \<and> connect_url ''alice'' ''s3cret'' ''42''
       \<notin> set (sent (snd (resolve demo_world ''alice'' ''s3cret'' (Some ''ng1'') start)))"
proof -
  have img: "''ng1'' \<noteq> ''''"
    by simp
  have r: "requests_get demo_world (jobs_url ''alice'' ''s3cret'')
      = Some \<lparr>status_code = 200, content = jobs_body\<rparr>"
    by (simp add: demo_world_def world_of_fields)
  have j: "json_loads demo_world (content \<lparr>status_code = 200, content = jobs_body\<rparr>)
      = Some (JObject [(''42'', job_info ''ng0'')])"
    using docs_decoded(1) by (simp add: demo_world_def world_of_fields)
  have no: "\<forall>e\<in>set [(''42'', job_info ''ng0'')]. has_name (snd e) \<and> \<not> matches ''ng1'' e"
    by (simp add: has_name_job_info matches_job_info)
  show ?thesis
    by (rule C3_no_match [OF img r j no])
qed

text \<open>
  C4, as the code has it. In a run that reaches the connect request, a connect response
  that decodes to a value without the \<^verbatim>\<open>address\<close> field makes line 52 raise: KeyError
  for a JSON object, TypeError for every other value. Nothing catches the exception:
  the run ends with its traceback on standard error and the exit code 1, after the two
  requests and with nothing on standard output, an empty string included.
\<close>

theorem C4_missing_address:
  assumes "nimbix_yaml w = Loaded cfg"
    and "map_of cfg ''username'' = Some username"
    and "map_of cfg ''apikey'' = Some apikey"
    and "image w argv start = (Inr img, start)"
    and "img \<noteq> ''''"
    and "requests_get w (jobs_url username apikey) = Some r1"
    and "json_loads w (content r1) = Some (JObject entries)"
    and "target_jobnumber entries img = Inr (Some number)"
    and "requests_get w (connect_url username apikey number) = Some r2"
    and "json_loads w (content r2) = Some v"
    and "lacks_address v"
    and "e = (case v of JObject _ \<Rightarrow> KeyError ''address'' | _ \<Rightarrow> TypeError)"
  shows "run w argv
       = (1, \<lparr>sent = [jobs_url username apikey, connect_url username apikey number],
              stdout = [], stderr = [Traceback e]\<rparr>)
       \<and> ip_address w username apikey number s
           = (Inl e, s\<lparr>sent := sent s @ [connect_url username apikey number]\<rparr>)"
proof -
  have listing: "fetched w (jobs_url username apikey) = Inr (JObject entries)"
    using assms(6,7) by (simp add: fetched_def)
  have "fetched w (connect_url username apikey number) = Inr v"
    using assms(9,10) by (simp add: fetched_def)
  then have step: "ip_address w username apikey number s
           = (Inl e, s\<lparr>sent := sent s @ [connect_url username apikey number]\<rparr>)" for s
    using assms(11,12) by (simp add: ip_address_fetched getitem_lacks)
  have e: "traceback (Inl e) = [Traceback e]" "exit_code (Inl e) = 1"
    using assms(12) by (cases v; simp)+
  have "resolve w username apikey (Some img) start
      = (Inl e, \<lparr>sent = [jobs_url username apikey, connect_url username apikey number],
              stdout = [], stderr = []\<rparr>)"
    using assms(5,8) listing
    by (simp add: resolve_image lookup_found and_then_def step start_def)
  with e have "run w argv
       = (1, \<lparr>sent = [jobs_url username apikey, connect_url username apikey number],
              stdout = [], stderr = [Traceback e]\<rparr>)"
    by (simp add: run_loaded [OF assms(1-4)])
  with step show ?thesis
    by simp
qed

text \<open>A connect response that is the object \<^verbatim>\<open>{"status":"queued"}\<close>.\<close>

theorem C4_missing_address_witness:
  "lacks_address (JObject [(''status'', JString ''queued'')])
   \<and> run queued_world [''ssh.py'', ''ng0'']
       = (1, \<lparr>sent = [jobs_url ''alice'' ''s3cret'', connect_url ''alice'' ''s3cret'' ''42''],
              stdout = [], stderr = [Traceback (KeyError ''address'')]\<rparr>)
   \<and> ip_address queued_world ''alice'' ''s3cret'' ''42'' start
       = (Inl (KeyError ''address''),
          start\<lparr>sent := sent start @ [connect_url ''alice'' ''s3cret'' ''42'']\<rparr>)"
proof -
  have cfg: "nimbix_yaml queued_world = Loaded [(''username'', ''alice''), (''apikey'', ''s3cret'')]"
    by (simp add: queued_world_def world_of_fields alice_def)
  have img: "image queued_world [''ssh.py'', ''ng0''] start = (Inr ''ng0'', start)"
    by (rule image_one_argument)
  have ne: "''ng0'' \<noteq> ''''"
    by simp
  have r1: "requests_get queued_world (jobs_url ''alice'' ''s3cret'')
      = Some \<lparr>status_code = 200, content = jobs_body\<rparr>"
    by (simp add: queued_world_def world_of_fields)
  have j1: "json_loads queued_world (content \<lparr>status_code = 200, content = jobs_body\<rparr>)
      = Some (JObject [(''42'', job_info ''ng0'')])"
    using docs_decoded(1) by (simp add: queued_world_def world_of_fields)
  have found: "target_jobnumber [(''42'', job_info ''ng0'')] ''ng0'' = Inr (Some ''42'')"
    by (simp add: nae_name_job_info)
  have r2: "requests_get queued_world (connect_url ''alice'' ''s3cret'' ''42'')
      = Some \<lparr>status_code = 200, content = queued_body\<rparr>"
    using urls_differ [of "''alice''" "''s3cret''" "''alice''" "''s3cret''" "''42''"]
    by (simp add: queued_world_def world_of_fields)
  have j2: "json_loads queued_world (content \<lparr>status_code = 200, content = queued_body\<rparr>)
      = Some (JObject [(''status'', JString ''queued'')])"
    using docs_decoded(4) by (simp add: queued_world_def world_of_fields)
  have lacks: "lacks_address (JObject [(''status'', JString ''queued'')])"
    by (simp add: lacks_address_def)
  have e: "KeyError ''address''
      = (case JObject [(''status'', JString ''queued'')] of
           JObject _ \<Rightarrow> KeyError ''address'' | _ \<Rightarrow> TypeError)"
    by simp
  from C4_missing_address [OF cfg alice_credentials(2) alice_credentials(3) img ne r1 j1 found
      r2 j2 lacks e, of start] lacks
  show ?thesis
    by simp
qed

text \<open>
  As the specification states it, the property fails: with the connect response
  \<^verbatim>\<open>{"status":"queued"}\<close> the run ends in the traceback of an unhandled KeyError, and
  with the connect response \<^verbatim>\<open>[]\<close> in that of an unhandled TypeError.
\<close>

theorem C4_missing_address_crashes:
  "fetched queued_world (connect_url ''alice'' ''s3cret'' ''42'')
     = Inr (JObject [(''status'', JString ''queued'')])
   \<and> run queued_world [''ssh.py'', ''ng0'']
     = (1, \<lparr>sent = [jobs_url ''alice'' ''s3cret'', connect_url ''alice'' ''s3cret'' ''42''],
            stdout = [], stderr = [Traceback (KeyError ''address'')]\<rparr>)
   \<and> fetched list_world (connect_url ''alice'' ''s3cret'' ''42'') = Inr (JArray [])
   \<and> run list_world [''ssh.py'', ''ng0'']
     = (1, \<lparr>sent = [jobs_url ''alice'' ''s3cret'', connect_url ''alice'' ''s3cret'' ''42''],
            stdout = [], stderr = [Traceback TypeError]\<rparr>)"
  by (simp add: fetched_def script_defs example_defs)

text \<open>
  C5. When the image is the empty string or \<^verbatim>\<open>None\<close>, the guard of line 26 prints
  its message and exits with 1 (the source's form of ArgumentError) before any request:
  the list of requested URLs is unchanged, and for a run it is empty.
\<close>

theorem C5_no_image:
  "(img = None \<or> img = Some '''' \<longrightarrow>
      resolve w username apikey img s
        = (Inl (SystemExit 1),
           s\<lparr>stdout := stdout s @ [Printed (JString ''please provide image name'')]\<rparr>))
   \<and> (nimbix_yaml w = Loaded cfg \<and> map_of cfg ''username'' = Some username
        \<and> map_of cfg ''apikey'' = Some apikey \<and> image w argv start = (Inr '''', s1) \<longrightarrow>
      run w argv
        = (1, \<lparr>sent = [], stdout = [Printed (JString ''please provide image name'')],
               stderr = []\<rparr>))"
proof (intro conjI impI)
  assume "img = None \<or> img = Some ''''"
  then show "resolve w username apikey img s
        = (Inl (SystemExit 1),
           s\<lparr>stdout := stdout s @ [Printed (JString ''please provide image name'')]\<rparr>)"
    by (rule resolve_no_image)
next
  assume a: "nimbix_yaml w = Loaded cfg \<and> map_of cfg ''username'' = Some username
        \<and> map_of cfg ''apikey'' = Some apikey \<and> image w argv start = (Inr '''', s1)"
  then have "s1 = start"
    using image_ok_state by blast
  with a have "main w argv start = resolve w username apikey (Some '''') start"
    by (simp add: main_loaded)
  then show "run w argv
        = (1, \<lparr>sent = [], stdout = [Printed (JString ''please provide image name'')],
               stderr = []\<rparr>)"
    by (simp add: run_def resolve_no_image start_def)
qed

text \<open>\<^verbatim>\<open>None\<close> and the empty string as the image, and a run with the argument \<^verbatim>\<open>''\<close>.\<close>

theorem C5_no_image_witness:
  "resolve demo_world ''alice'' ''s3cret'' None start
     = (Inl (SystemExit 1),
        \<lparr>sent = [], stdout = [Printed (JString ''please provide image name'')], stderr = []\<rparr>)
   \<and> resolve demo_world ''alice'' ''s3cret'' (Some '''') start
     = (Inl (SystemExit 1),
        \<lparr>sent = [], stdout = [Printed (JString ''please provide image name'')], stderr = []\<rparr>)
   \<and> run demo_world [''ssh.py'', '''']
     = (1, \<lparr>sent = [], stdout = [Printed (JString ''please provide image name'')],
            stderr = []\<rparr>)"
proof -
  have cfg: "nimbix_yaml demo_world = Loaded [(''username'', ''alice''), (''apikey'', ''s3cret'')]"
    by (simp add: demo_world_def world_of_fields alice_def)
  have img: "image demo_world [''ssh.py'', ''''] start = (Inr '''', start)"
    by (rule image_one_argument)
  note c = C5_no_image [where w = demo_world and username = "''alice''" and apikey = "''s3cret''"
      and cfg = "[(''username'', ''alice''), (''apikey'', ''s3cret'')]"
      and argv = "[''ssh.py'', '''']" and s = start and ?s1.0 = start]
  from c [where img = None] c [where img = "Some ''''"] cfg img show ?thesis
    by (simp add: start_def)
qed

text \<open>
  C6. The status code of a response is never read. Replacing the status code of every
  response changes nothing in a run; and whatever the status code of the jobs response
  is, its decoded body is searched as the job listing: the job it names for the image
  is the one the connect request asks for, an entry whose value is no object (as in a
  JSON error body) is read as a job and raises TypeError, and a body that is no object
  raises AttributeError at \<^verbatim>\<open>res.items()\<close>.
\<close>

theorem C6_status_ignored:
  assumes "nimbix_yaml w = Loaded cfg"
    and "map_of cfg ''username'' = Some username"
    and "map_of cfg ''apikey'' = Some apikey"
    and "image w argv start = (Inr img, start)"
    and "img \<noteq> ''''"
    and "requests_get w (jobs_url username apikey) = Some \<lparr>status_code = code, content = body\<rparr>"
    and "json_loads w body = Some listing"
  shows "run (with_status f w) argv = run w argv
       \<and> (listing = JObject (pre @ (number, info) # post)
            \<and> (\<forall>e\<in>set pre. has_name (snd e) \<and> \<not> matches img e)
            \<and> matches img (number, info) \<longrightarrow>
          sent (snd (run w argv))
            = [jobs_url username apikey, connect_url username apikey number])
       \<and> (listing = JObject ((key, v) # rest) \<and> (\<forall>kvs. v \<noteq> JObject kvs) \<longrightarrow>
          run w argv
            = (1, \<lparr>sent = [jobs_url username apikey], stdout = [],
                   stderr = [Traceback TypeError]\<rparr>))
       \<and> ((\<forall>kvs. listing \<noteq> JObject kvs) \<longrightarrow>
          run w argv
            = (1, \<lparr>sent = [jobs_url username apikey], stdout = [],
                   stderr = [Traceback AttributeError]\<rparr>))"
proof (intro conjI impI)
  show "run (with_status f w) argv = run w argv"
    by (simp add: run_def main_with_status)
next
  have listing: "fetched w (jobs_url username apikey) = Inr listing"
    using assms(6,7) by (simp add: fetched_def)
  note run = run_loaded [OF assms(1-4)]
  {
    assume a: "listing = JObject (pre @ (number, info) # post)
            \<and> (\<forall>e\<in>set pre. has_name (snd e) \<and> \<not> matches img e)
            \<and> matches img (number, info)"
    then have "target_jobnumber (pre @ (number, info) # post) img = Inr (Some number)"
      by (simp add: target_first_match)
    then have r: "resolve w username apikey (Some img) start
        = and_then (ip_address w username apikey number) print
            (start\<lparr>sent := sent start @ [jobs_url username apikey]\<rparr>)"
      using a listing assms(5) by (simp add: resolve_image lookup_found)
    obtain x s' where x: "resolve w username apikey (Some img) start = (x, s')"
      by (cases "resolve w username apikey (Some img) start")
    with r sent_ip_address_print [of w username apikey number
        "start\<lparr>sent := sent start @ [jobs_url username apikey]\<rparr>"]
    have "sent s' = [jobs_url username apikey, connect_url username apikey number]"
      by (simp add: start_def)
    with x show "sent (snd (run w argv))
            = [jobs_url username apikey, connect_url username apikey number]"
      by (simp add: run)
  }
  {
    assume a: "listing = JObject ((key, v) # rest) \<and> (\<forall>kvs. v \<noteq> JObject kvs)"
    then have "target_jobnumber ((key, v) # rest) img = Inl TypeError"
      by (simp add: nae_name_no_object)
    with a listing have "resolve w username apikey (Some img) start
        = (Inl TypeError, start\<lparr>sent := sent start @ [jobs_url username apikey]\<rparr>)"
      using assms(5) by (simp add: resolve_image lookup_search_fails)
    then show "run w argv
            = (1, \<lparr>sent = [jobs_url username apikey], stdout = [],
                   stderr = [Traceback TypeError]\<rparr>)"
      by (simp add: run start_def)
  }
  {
    assume a: "\<forall>kvs. listing \<noteq> JObject kvs"
    then have "items listing = Inl AttributeError"
      by (cases listing) simp_all
    with listing have "resolve w username apikey (Some img) start
        = (Inl AttributeError, start\<lparr>sent := sent start @ [jobs_url username apikey]\<rparr>)"
      using assms(5) by (simp add: resolve_image lookup_def jobs_fetched and_then_def lift_def)
    then show "run w argv
            = (1, \<lparr>sent = [jobs_url username apikey], stdout = [],
                   stderr = [Traceback AttributeError]\<rparr>)"
      by (simp add: run start_def)
  }
qed

text \<open>
  A jobs response with status 401 and the body \<^verbatim>\<open>{"error":"invalid credentials"}\<close>, one
  with status 500 and the listing of job 42, and one with status 500 and the body
  \<^verbatim>\<open>[]\<close>.
\<close>

theorem C6_status_ignored_witness:
  "run (with_status (\<lambda>url code. 200) denied_world) [''ssh.py'', ''ng0'']
     = run denied_world [''ssh.py'', ''ng0'']
   \<and> run denied_world [''ssh.py'', ''ng0'']
     = (1, \<lparr>sent = [jobs_url ''alice'' ''s3cret''], stdout = [],
            stderr = [Traceback TypeError]\<rparr>)
   \<and> sent (snd (run error_status_world [''ssh.py'', ''ng0'']))
     = [jobs_url ''alice'' ''s3cret'', connect_url ''alice'' ''s3cret'' ''42'']
   \<and> run array_world [''ssh.py'', ''ng0'']
     = (1, \<lparr>sent = [jobs_url ''alice'' ''s3cret''], stdout = [],
            stderr = [Traceback AttributeError]\<rparr>)"
proof -
  have ne: "''ng0'' \<noteq> ''''"
    by simp
  have denied: "run (with_status (\<lambda>url code. 200) denied_world) [''ssh.py'', ''ng0'']
       = run denied_world [''ssh.py'', ''ng0'']
     \<and> run denied_world [''ssh.py'', ''ng0'']
       = (1, \<lparr>sent = [jobs_url ''alice'' ''s3cret''], stdout = [],
              stderr = [Traceback TypeError]\<rparr>)"
  proof -
    have cfg: "nimbix_yaml denied_world
        = Loaded [(''username'', ''alice''), (''apikey'', ''s3cret'')]"
      by (simp add: denied_world_def alice_world)
    have r: "requests_get denied_world (jobs_url ''alice'' ''s3cret'')
        = Some \<lparr>status_code = 401, content = denied_body\<rparr>"
      by (simp add: denied_world_def jobs_page)
    have j: "json_loads denied_world denied_body
        = Some (JObject [(''error'', JString ''invalid credentials'')])"
      using docs_decoded(5) by (simp add: denied_world_def world_of_fields)
    from C6_status_ignored [OF cfg alice_credentials(2) alice_credentials(3)
        image_one_argument ne r j, where f = "\<lambda>url code. 200" and key = "''error''"
        and v = "JString ''invalid credentials''" and rest = "[]"]
    show ?thesis
      by simp
  qed
  have served: "sent (snd (run error_status_world [''ssh.py'', ''ng0'']))
       = [jobs_url ''alice'' ''s3cret'', connect_url ''alice'' ''s3cret'' ''42'']"
  proof -
    have cfg: "nimbix_yaml error_status_world
        = Loaded [(''username'', ''alice''), (''apikey'', ''s3cret'')]"
      by (simp add: error_status_world_def alice_world)
    have r: "requests_get error_status_world (jobs_url ''alice'' ''s3cret'')
        = Some \<lparr>status_code = 500, content = jobs_body\<rparr>"
      by (simp add: error_status_world_def jobs_page)
    have j: "json_loads error_status_world jobs_body = Some (JObject [(''42'', job_info ''ng0'')])"
      using docs_decoded(1) by (simp add: error_status_world_def world_of_fields)
    from C6_status_ignored [OF cfg alice_credentials(2) alice_credentials(3)
        image_one_argument ne r j, where pre = "[]" and number = "''42''"
        and info = "job_info ''ng0''" and post = "[]"]
    show ?thesis
      by (simp add: matches_job_info)
  qed
  have array: "run array_world [''ssh.py'', ''ng0'']
       = (1, \<lparr>sent = [jobs_url ''alice'' ''s3cret''], stdout = [],
              stderr = [Traceback AttributeError]\<rparr>)"
  proof -
    have cfg: "nimbix_yaml array_world
        = Loaded [(''username'', ''alice''), (''apikey'', ''s3cret'')]"
      by (simp add: array_world_def alice_world)
    have r: "requests_get array_world (jobs_url ''alice'' ''s3cret'')
        = Some \<lparr>status_code = 500, content = ''[]''\<rparr>"
      by (simp add: array_world_def jobs_page)
    have j: "json_loads array_world ''[]'' = Some (JArray [])"
      using docs_decoded(6) by (simp add: array_world_def world_of_fields)
    from C6_status_ignored [OF cfg alice_credentials(2) alice_credentials(3)
        image_one_argument ne r j]
    show ?thesis
      by simp
  qed
  from denied served array show ?thesis
    by simp
qed

text \<open>
  C7. When the entries before the first entry with the image name are jobs, the search
  returns the job number of that entry, whatever follows it: the entries after it are
  not looked at, so that further matches and even entries that are no jobs change
  nothing.
\<close>

theorem C7_first_match:
  assumes "\<forall>e\<in>set pre. has_name (snd e) \<and> \<not> matches img e"
    and "matches img (jobnumber, info)"
  shows "target_jobnumber (pre @ (jobnumber, info) # post) img = Inr (Some jobnumber)
       \<and> target_jobnumber (pre @ (jobnumber, info) # post) img
           = target_jobnumber (pre @ [(jobnumber, info)]) img"
  using assms by (simp add: target_first_match)

text \<open>Two jobs with the image, after another job and before an entry that is no job.\<close>

theorem C7_first_match_witness:
  "target_jobnumber
       ([(''7'', job_info ''ng1'')] @ (''42'', job_info ''ng0'')
          # [(''43'', job_info ''ng0''), (''44'', JNull)]) ''ng0''
     = Inr (Some ''42'')
   \<and> target_jobnumber
       ([(''7'', job_info ''ng1'')] @ (''42'', job_info ''ng0'')
          # [(''43'', job_info ''ng0''), (''44'', JNull)]) ''ng0''
     = target_jobnumber ([(''7'', job_info ''ng1'')] @ [(''42'', job_info ''ng0'')]) ''ng0''"
proof -
  have pre: "\<forall>e\<in>set [(''7'', job_info ''ng1'')]. has_name (snd e) \<and> \<not> matches ''ng0'' e"
    by (simp add: has_name_job_info matches_job_info)
  have hit: "matches ''ng0'' (''42'', job_info ''ng0'')"
    by (simp add: matches_job_info)
  show ?thesis
    by (rule C7_first_match [OF pre hit])
qed

text \<open>
  C8, as the code has it. The outcome of the resolution, the printed address included,
  is the same in two runs that get the same connection data and the same listing with
  its entries in the same order. When the two runs get the same mapping from job
  numbers to jobs with its entries in different orders, the outcome is still the same
  if at most one job has the image name, and the connect request then asks for that
  job wherever it stands; with two or more such jobs the order decides.
\<close>

theorem C8_deterministic:
  "(fetched w1 (jobs_url username apikey) = fetched w2 (jobs_url username apikey)
      \<and> (\<forall>number. fetched w1 (connect_url username apikey number)
                  = fetched w2 (connect_url username apikey number)) \<longrightarrow>
    resolve w1 username apikey im s = resolve w2 username apikey im s)
   \<and> (fetched w1 (jobs_url username apikey) = Inr (JObject l1)
      \<and> fetched w2 (jobs_url username apikey) = Inr (JObject l2)
      \<and> distinct (map fst l1) \<and> distinct (map fst l2) \<and> map_of l1 = map_of l2
      \<and> (\<forall>e\<in>set l1. has_name (snd e))
      \<and> length (filter (matches img) l1) \<le> 1
      \<and> (\<forall>number. fetched w1 (connect_url username apikey number)
                  = fetched w2 (connect_url username apikey number)) \<longrightarrow>
    resolve w1 username apikey (Some img) s = resolve w2 username apikey (Some img) s
    \<and> (\<forall>number info. img \<noteq> '''' \<and> (number, info) \<in> set l2 \<and> matches img (number, info) \<longrightarrow>
         sent (snd (resolve w1 username apikey (Some img) s))
           = sent s @ [jobs_url username apikey, connect_url username apikey number]))"
proof (rule conjI; rule impI)
  assume a: "fetched w1 (jobs_url username apikey) = fetched w2 (jobs_url username apikey)
      \<and> (\<forall>number. fetched w1 (connect_url username apikey number)
                  = fetched w2 (connect_url username apikey number))"
  then have "jobs w1 username apikey = jobs w2 username apikey"
    by (intro ext) (simp add: jobs_fetched)
  moreover have "ip_address w1 username apikey number = ip_address w2 username apikey number"
    for number
    using a by (intro ext) (simp add: ip_address_fetched)
  ultimately have "lookup w1 username apikey i = lookup w2 username apikey i" for i
    by (simp add: lookup_def)
  then show "resolve w1 username apikey im s = resolve w2 username apikey im s"
    by (simp add: resolve_def split: option.splits)
next
  assume a: "fetched w1 (jobs_url username apikey) = Inr (JObject l1)
      \<and> fetched w2 (jobs_url username apikey) = Inr (JObject l2)
      \<and> distinct (map fst l1) \<and> distinct (map fst l2) \<and> map_of l1 = map_of l2
      \<and> (\<forall>e\<in>set l1. has_name (snd e))
      \<and> length (filter (matches img) l1) \<le> 1
      \<and> (\<forall>number. fetched w1 (connect_url username apikey number)
                  = fetched w2 (connect_url username apikey number))"
  then have t: "target_jobnumber l2 img = target_jobnumber l1 img"
    by (simp add: same_mapping_same_target)
  have ip: "ip_address w1 username apikey number = ip_address w2 username apikey number"
    for number
    using a by (intro ext) (simp add: ip_address_fetched)
  have "lookup w1 username apikey img s = lookup w2 username apikey img s"
    using a t by (simp add: lookup_def jobs_fetched and_then_def lift_def ip)
  then have same: "resolve w1 username apikey (Some img) s
      = resolve w2 username apikey (Some img) s"
    by (simp add: resolve_def)
  have pin: "sent (snd (resolve w1 username apikey (Some img) s))
           = sent s @ [jobs_url username apikey, connect_url username apikey number]"
    if b: "img \<noteq> ''''" "(number, info) \<in> set l2" "matches img (number, info)"
    for number info
  proof -
    from a have "distinct (map fst l1)" "distinct (map fst l2)" "map_of l1 = map_of l2"
      by blast+
    then have s: "set l1 = set l2"
      by (simp add: map_of_inject_set)
    with b have "(number, info) \<in> set (filter (matches img) l1)"
      by simp
    moreover from a have "length (filter (matches img) l1) \<le> 1"
      by simp
    ultimately have "filter (matches img) l1 = [(number, info)]"
      by (cases "filter (matches img) l1") auto
    with a have "target_jobnumber l1 img = Inr (Some number)"
      by (simp add: target_by_filter)
    with a b(1) have "resolve w1 username apikey (Some img) s
        = and_then (ip_address w1 username apikey number) print
            (s\<lparr>sent := sent s @ [jobs_url username apikey]\<rparr>)"
      by (simp add: resolve_image lookup_found)
    then show ?thesis
      by (simp add: sent_ip_address_print)
  qed
  from same pin
  show "resolve w1 username apikey (Some img) s = resolve w2 username apikey (Some img) s
    \<and> (\<forall>number info. img \<noteq> '''' \<and> (number, info) \<in> set l2 \<and> matches img (number, info) \<longrightarrow>
         sent (snd (resolve w1 username apikey (Some img) s))
           = sent s @ [jobs_url username apikey, connect_url username apikey number])"
    by blast
qed

text \<open>
  Two worlds with the same listing and connection data in different bytes, under
  different status codes; and the image ng1, which job 44 alone runs, in the two worlds
  that list the jobs 42, 43 and 44 in opposite orders.
\<close>

theorem C8_deterministic_witness:
  "resolve demo_world ''alice'' ''s3cret'' (Some ''ng0'') start
     = resolve other_world ''alice'' ''s3cret'' (Some ''ng0'') start
   \<and> resolve twin_world ''alice'' ''s3cret'' (Some ''ng1'') start
     = resolve reversed_world ''alice'' ''s3cret'' (Some ''ng1'') start
   \<and> sent (snd (resolve twin_world ''alice'' ''s3cret'' (Some ''ng1'') start))
     = [jobs_url ''alice'' ''s3cret'', connect_url ''alice'' ''s3cret'' ''44'']"
proof -
  have listing: "fetched demo_world (jobs_url ''alice'' ''s3cret'')
      = fetched other_world (jobs_url ''alice'' ''s3cret'')"
    by (simp add: demo_world_def other_world_def fetched_jobs_page)
  have connection: "\<forall>number. fetched demo_world (connect_url ''alice'' ''s3cret'' number)
      = fetched other_world (connect_url ''alice'' ''s3cret'' number)"
    by (simp add: demo_world_def other_world_def fetched_connect_page docs_decoded)
  have same_order: "resolve demo_world ''alice'' ''s3cret'' (Some ''ng0'') start
     = resolve other_world ''alice'' ''s3cret'' (Some ''ng0'') start"
    using C8_deterministic [where ?w1.0 = demo_world and ?w2.0 = other_world
        and username = "''alice''" and apikey = "''s3cret''" and im = "Some ''ng0''"
        and s = start] listing connection
    by simp
  have one: "length (filter (matches ''ng1'') twin_listing) \<le> 1"
    by (simp add: twin_listing_def matches_job_info)
  have at_44: "(''44'', job_info ''ng1'') \<in> set reversed_listing"
    "matches ''ng1'' (''44'', job_info ''ng1'')" "''ng1'' \<noteq> ''''"
    by (simp_all add: reversed_listing_def matches_job_info)
  from C8_deterministic [where ?w1.0 = twin_world and ?w2.0 = reversed_world
      and username = "''alice''" and apikey = "''s3cret''" and img = "''ng1''"
      and ?l1.0 = twin_listing and ?l2.0 = reversed_listing and s = start]
    twin_fetched twin_distinct twin_mapping twin_jobs one twin_addresses
  have other_order: "resolve twin_world ''alice'' ''s3cret'' (Some ''ng1'') start
       = resolve reversed_world ''alice'' ''s3cret'' (Some ''ng1'') start
     \<and> (\<forall>number info. ''ng1'' \<noteq> '''' \<and> (number, info) \<in> set reversed_listing
           \<and> matches ''ng1'' (number, info) \<longrightarrow>
         sent (snd (resolve twin_world ''alice'' ''s3cret'' (Some ''ng1'') start))
           = sent start @ [jobs_url ''alice'' ''s3cret'', connect_url ''alice'' ''s3cret'' number])"
    by blast
  then have "sent (snd (resolve twin_world ''alice'' ''s3cret'' (Some ''ng1'') start))
       = sent start @ [jobs_url ''alice'' ''s3cret'', connect_url ''alice'' ''s3cret'' ''44'']"
    using at_44 by blast
  with same_order other_order show ?thesis
    by (simp add: start_def)
qed

text \<open>
  As the specification states it, the property fails: the two worlds deliver the same
  mapping from job numbers to jobs and the same connection data, the jobs 42 and 43 both
  run the image ng0, and the two runs print different addresses, each that of the job
  its listing names first.
\<close>

theorem C8_order_decides:
  "map_of twin_listing = map_of reversed_listing
   \<and> fetched twin_world (jobs_url ''alice'' ''s3cret'') = Inr (JObject twin_listing)
   \<and> fetched reversed_world (jobs_url ''alice'' ''s3cret'') = Inr (JObject reversed_listing)
   \<and> fetched twin_world (connect_url ''alice'' ''s3cret'' ''42'')
       = fetched reversed_world (connect_url ''alice'' ''s3cret'' ''42'')
   \<and> fetched twin_world (connect_url ''alice'' ''s3cret'' ''43'')
       = fetched reversed_world (connect_url ''alice'' ''s3cret'' ''43'')
   \<and> run twin_world [''ssh.py'', ''ng0'']
       = (0, \<lparr>sent = [jobs_url ''alice'' ''s3cret'', connect_url ''alice'' ''s3cret'' ''42''],
              stdout = [Printed (JString ''10.0.0.5'')], stderr = []\<rparr>)
   \<and> run reversed_world [''ssh.py'', ''ng0'']
       = (0, \<lparr>sent = [jobs_url ''alice'' ''s3cret'', connect_url ''alice'' ''s3cret'' ''43''],
              stdout = [Printed (JString ''10.0.0.6'')], stderr = []\<rparr>)"
proof -
  have "run twin_world [''ssh.py'', ''ng0'']
       = (0, \<lparr>sent = [jobs_url ''alice'' ''s3cret'', connect_url ''alice'' ''s3cret'' ''42''],
              stdout = [Printed (JString ''10.0.0.5'')], stderr = []\<rparr>)"
    by (simp add: script_defs twin_defs)
  moreover have "run reversed_world [''ssh.py'', ''ng0'']
       = (0, \<lparr>sent = [jobs_url ''alice'' ''s3cret'', connect_url ''alice'' ''s3cret'' ''43''],
              stdout = [Printed (JString ''10.0.0.6'')], stderr = []\<rparr>)"
    by (simp add: script_defs twin_defs)
  ultimately show ?thesis
    using twin_mapping twin_fetched twin_addresses by simp
qed

text \<open>
  C9, as the code has it. A run that ends by an exception other than the exit of the
  parser's help exits with a code that is not 0: 2 after a usage error, 1 otherwise.
  The traceback of an exception nobody caught and the usage message go to standard
  error, and nothing to standard output; the message of the guard of line 26 goes to
  standard output, and nothing to standard error.
\<close>

theorem C9_failing_run:
  assumes "main w argv start = (Inl e, s)" and "e \<noteq> SystemExit 0"
  shows "fst (run w argv) = (if e = SystemExit 2 then 2 else 1)
       \<and> (if e = SystemExit 1
          then stdout (snd (run w argv)) = [Printed (JString ''please provide image name'')]
             \<and> stderr (snd (run w argv)) = []
          else stdout (snd (run w argv)) = []
             \<and> stderr (snd (run w argv))
                 = (if e = SystemExit 2 then [Usage_text] else [Traceback e]))"
proof -
  have run: "run w argv = (exit_code (Inl e), s\<lparr>stderr := stderr s @ traceback (Inl e)\<rparr>)"
    using assms(1) by (simp add: run_def)
  from main_fails [OF assms] show ?thesis
  proof (elim disjE conjE)
    assume "e = SystemExit 1"
      "stdout s = [Printed (JString ''please provide image name'')]" "stderr s = []"
    then show ?thesis by (simp add: run)
  next
    assume "e = SystemExit 2" "stdout s = []" "stderr s = [Usage_text]"
    then show ?thesis by (simp add: run)
  next
    assume a: "\<forall>n. e \<noteq> SystemExit n" "stdout s = []" "stderr s = []"
    then have "exit_code (Inl e) = 1" "traceback (Inl e) = [Traceback e]"
      by (cases e; simp)+
    with a show ?thesis by (simp add: run)
  qed
qed

text \<open>
  Three failing runs in \<open>demo_world\<close>: an image no job has, two arguments the parser
  rejects, and the empty image.
\<close>

theorem C9_failing_run_witness:
  "fst (run demo_world [''ssh.py'', ''ng1'']) = 1
   \<and> stdout (snd (run demo_world [''ssh.py'', ''ng1''])) = []
   \<and> stderr (snd (run demo_world [''ssh.py'', ''ng1''])) = [Traceback AssertionError]
   \<and> fst (run demo_world [''ssh.py'', ''a'', ''b'']) = 2
   \<and> stdout (snd (run demo_world [''ssh.py'', ''a'', ''b''])) = []
   \<and> stderr (snd (run demo_world [''ssh.py'', ''a'', ''b''])) = [Usage_text]
   \<and> fst (run demo_world [''ssh.py'', '''']) = 1
   \<and> stdout (snd (run demo_world [''ssh.py'', '''']))
       = [Printed (JString ''please provide image name'')]
   \<and> stderr (snd (run demo_world [''ssh.py'', ''''])) = []"
proof -
  have m1: "main demo_world [''ssh.py'', ''ng1''] start
      = (Inl AssertionError, \<lparr>sent = [jobs_url ''alice'' ''s3cret''], stdout = [], stderr = []\<rparr>)"
    by (simp add: script_defs example_defs)
  have m2: "main demo_world [''ssh.py'', ''a'', ''b''] start
      = (Inl (SystemExit 2), \<lparr>sent = [], stdout = [], stderr = [Usage_text]\<rparr>)"
    by (simp add: script_defs example_defs)
  have m3: "main demo_world [''ssh.py'', ''''] start
      = (Inl (SystemExit 1),
         \<lparr>sent = [], stdout = [Printed (JString ''please provide image name'')], stderr = []\<rparr>)"
    by (simp add: script_defs example_defs)
  have "AssertionError \<noteq> SystemExit 0" "SystemExit 2 \<noteq> SystemExit 0"
    "SystemExit 1 \<noteq> SystemExit 0"
    by simp_all
  from C9_failing_run [OF m1 this(1)] C9_failing_run [OF m2 this(2)]
    C9_failing_run [OF m3 this(3)]
  show ?thesis
    by simp
qed

text \<open>
  As the specification states it, the property fails for the empty image: the run exits
  with 1, its message is on standard output and standard error is empty.
\<close>

theorem C9_message_on_stdout:
  "run demo_world [''ssh.py'', '''']
     = (1, \<lparr>sent = [], stdout = [Printed (JString ''please provide image name'')],
            stderr = []\<rparr>)"
  by (simp add: script_defs example_defs)

text \<open>
  C10, as the code has it. The parser is consulted only when \<^verbatim>\<open>sys.argv\<close> has more
  than two entries: a run with fewer does not depend on the parser, and with exactly one
  argument the image is that argument as it stands. With two or more arguments the run
  is the run with the one argument that the parser returns as the value of
  \<^verbatim>\<open>--image\<close>; it is the run with the one argument \<^verbatim>\<open>ng0\<close> only when the parser
  returns without a value; and, the configuration file being loaded, it ends with the
  usage message on standard error, the exit code 2 and no request when the parser
  rejects the command line, and with the help text and the exit code 0 when the parser
  prints its help.
\<close>

theorem C10_argv_dispatch:
  assumes "nimbix_yaml w = Loaded cfg"
  shows "(length argv \<le> 2 \<longrightarrow> run (w\<lparr>parse_args := p\<rparr>) argv = run w argv)
       \<and> (map_of cfg ''username'' = Some username \<and> map_of cfg ''apikey'' = Some apikey \<longrightarrow>
            main w [prog, a] start = resolve w username apikey (Some a) start)
       \<and> (2 < length argv \<and> parse_args w (tl argv) = Parsed (Some v) \<longrightarrow>
            run w argv = run w [prog, v])
       \<and> (2 < length argv \<and> parse_args w (tl argv) = Parsed None \<longrightarrow>
            run w argv = run w [prog, ''ng0''])
       \<and> (2 < length argv \<and> parse_args w (tl argv) = Usage_error \<longrightarrow>
            run w argv = (2, \<lparr>sent = [], stdout = [], stderr = [Usage_text]\<rparr>))
       \<and> (2 < length argv \<and> parse_args w (tl argv) = Help \<longrightarrow>
            run w argv = (0, \<lparr>sent = [], stdout = [Help_text], stderr = []\<rparr>))"
proof (intro conjI impI)
  assume "length argv \<le> 2"
  then have "image (w\<lparr>parse_args := p\<rparr>) argv = image w argv"
    by (rule image_without_parser)
  then have "main (w\<lparr>parse_args := p\<rparr>) argv = main w argv"
    by (simp add: main_def config_def resolve_other_parser)
  then show "run (w\<lparr>parse_args := p\<rparr>) argv = run w argv"
    by (simp add: run_def)
next
  assume "map_of cfg ''username'' = Some username \<and> map_of cfg ''apikey'' = Some apikey"
  with assms show "main w [prog, a] start = resolve w username apikey (Some a) start"
    by (simp add: main_loaded image_one_argument)
next
  assume "2 < length argv \<and> parse_args w (tl argv) = Parsed (Some v)"
  then have "image w argv start = (Inr v, start)"
    by (simp add: image_def ret_def)
  then show "run w argv = run w [prog, v]"
    by (rule run_same_image)
next
  assume "2 < length argv \<and> parse_args w (tl argv) = Parsed None"
  then have "image w argv start = (Inr ''ng0'', start)"
    by (simp add: image_def ret_def)
  then show "run w argv = run w [prog, ''ng0'']"
    by (rule run_same_image)
next
  assume "2 < length argv \<and> parse_args w (tl argv) = Usage_error"
  then have "image w argv start = (Inl (SystemExit 2), start\<lparr>stderr := stderr start @ [Usage_text]\<rparr>)"
    by (simp add: image_def)
  with assms show "run w argv = (2, \<lparr>sent = [], stdout = [], stderr = [Usage_text]\<rparr>)"
    by (simp add: run_def main_def config_def and_then_def ret_def start_def)
next
  assume "2 < length argv \<and> parse_args w (tl argv) = Help"
  then have "image w argv start = (Inl (SystemExit 0), start\<lparr>stdout := stdout start @ [Help_text]\<rparr>)"
    by (simp add: image_def)
  with assms show "run w argv = (0, \<lparr>sent = [], stdout = [Help_text], stderr = []\<rparr>)"
    by (simp add: run_def main_def config_def and_then_def ret_def start_def)
qed

text \<open>
  In \<open>demo_world\<close>: one argument that begins with two dashes is the image, also for a
  parser that would print its help; \<^verbatim>\<open>--image ng1\<close> runs as \<^verbatim>\<open>ng1\<close>; \<^verbatim>\<open>a b\<close> is
  rejected. With a parser that returns without a value, two arguments run as \<^verbatim>\<open>ng0\<close>.
\<close>

theorem C10_argv_dispatch_witness:
  "run (demo_world\<lparr>parse_args := \<lambda>args. Help\<rparr>) [''ssh.py'', ''--image=ng0'']
     = run demo_world [''ssh.py'', ''--image=ng0'']
   \<and> main demo_world [''ssh.py'', ''--image=ng0''] start
     = resolve demo_world ''alice'' ''s3cret'' (Some ''--image=ng0'') start
   \<and> run demo_world [''ssh.py'', ''--image'', ''ng1''] = run demo_world [''ssh.py'', ''ng1'']
   \<and> run (demo_world\<lparr>parse_args := \<lambda>args. Parsed None\<rparr>) [''ssh.py'', ''-x'', ''-y'']
     = run (demo_world\<lparr>parse_args := \<lambda>args. Parsed None\<rparr>) [''ssh.py'', ''ng0'']
   \<and> run demo_world [''ssh.py'', ''a'', ''b'']
     = (2, \<lparr>sent = [], stdout = [], stderr = [Usage_text]\<rparr>)
   \<and> run (demo_world\<lparr>parse_args := \<lambda>args. Help\<rparr>) [''ssh.py'', ''-h'', ''x'']
     = (0, \<lparr>sent = [], stdout = [Help_text], stderr = []\<rparr>)"
proof -
  have cfg: "nimbix_yaml demo_world = Loaded [(''username'', ''alice''), (''apikey'', ''s3cret'')]"
    by (simp add: demo_world_def alice_world)
  then have cfg': "nimbix_yaml (demo_world\<lparr>parse_args := p\<rparr>)
      = Loaded [(''username'', ''alice''), (''apikey'', ''s3cret'')]" for p
    by simp
  have p: "parse_args demo_world [''--image'', ''ng1''] = Parsed (Some ''ng1'')"
    "parse_args demo_world [''a'', ''b''] = Usage_error"
    by (simp_all add: demo_world_def world_of_fields)
  note n1 = C10_argv_dispatch [OF cfg, where argv = "[''ssh.py'', ''--image=ng0'']"
      and p = "\<lambda>args. Help" and username = "''alice''" and apikey = "''s3cret''"
      and prog = "''ssh.py''" and a = "''--image=ng0''"]
  note n2 = C10_argv_dispatch [OF cfg, where argv = "[''ssh.py'', ''--image'', ''ng1'']"
      and prog = "''ssh.py''" and v = "''ng1''"]
  note n3 = C10_argv_dispatch [OF cfg, where argv = "[''ssh.py'', ''a'', ''b'']"]
  note n4 = C10_argv_dispatch [OF cfg', where argv = "[''ssh.py'', ''-x'', ''-y'']"
      and p1 = "\<lambda>args. Parsed None" and prog = "''ssh.py''"]
  note n5 = C10_argv_dispatch [OF cfg', where argv = "[''ssh.py'', ''-h'', ''x'']"
      and p1 = "\<lambda>args. Help"]
  from n1 n2 n3 n4 n5 p alice_credentials(2,3) show ?thesis
    by simp
qed

text \<open>
  As the specification states it, the property fails: the command line \<^verbatim>\<open>a b\<close> has two
  arguments and no \<^verbatim>\<open>--image\<close>; the parser reports them as unrecognised arguments,
  and the run ends with the usage message and the exit code 2, where the run with the
  image \<^verbatim>\<open>ng0\<close> prints the address of job 42.
\<close>

theorem C10_unrecognized_arguments:
  "parse_args demo_world [''a'', ''b''] = Usage_error
   \<and> run demo_world [''ssh.py'', ''a'', ''b'']
     = (2, \<lparr>sent = [], stdout = [], stderr = [Usage_text]\<rparr>)
   \<and> run demo_world [''ssh.py'', ''ng0'']
     = (0, \<lparr>sent = [jobs_url ''alice'' ''s3cret'', connect_url ''alice'' ''s3cret'' ''42''],
            stdout = [Printed (JString ''10.0.0.5'')], stderr = []\<rparr>)"
  by (simp add: script_defs example_defs)

end
